theory Spec2Isabelle
  imports Main "HOL-Library.AList"
begin

section \<open>Data model of the device connection service\<close>

text \<open>
  The enums of \<^verbatim>\<open>src/lib/device-connection-service.ts\<close>. Timestamps (JavaScript
  \<^verbatim>\<open>Date\<close> values) are integers counting milliseconds, as \<^verbatim>\<open>getTime()\<close> reads them.
\<close>

datatype DeviceConnectionStatus = ONLINE | OFFLINE | INACTIVE | ERROR

datatype DeviceProtocol = MQTT | TCP | UDP | HTTP | WEBSOCKET | COAP | UNKNOWN

text \<open>
  The values kept in the open \<^verbatim>\<open>metadata\<close> bag (\<^verbatim>\<open>Record<string, any>\<close>): the service
  itself stores strings, dates and nested objects there. An object is a list of
  key/value pairs with pairwise different keys, in insertion order.
\<close>

datatype mval = MString string | MDate int | MObject "(string \<times> mval) list"

type_synonym metadata_bag = "(string \<times> mval) list"

record DeviceConnectionInfo =
  deviceId :: string
  deviceIdentifier :: string
  status :: DeviceConnectionStatus
  protocol :: DeviceProtocol
  address :: "string option"
  port :: "int option"
  clientId :: "string option"
  lastActivityAt :: int
  connectedAt :: "int option"
  disconnectedAt :: "int option"
  connectionDuration :: "int option"
  sessionId :: "string option"
  metadata :: "metadata_bag option"

text \<open>
  \<^verbatim>\<open>Partial<DeviceConnectionInfo>\<close>: every field may be left out; \<open>None\<close> is a field
  the caller did not supply.
\<close>

record PartialConnectionInfo =
  p_deviceId :: "string option"
  p_deviceIdentifier :: "string option"
  p_status :: "DeviceConnectionStatus option"
  p_protocol :: "DeviceProtocol option"
  p_address :: "string option"
  p_port :: "int option"
  p_clientId :: "string option"
  p_lastActivityAt :: "int option"
  p_connectedAt :: "int option"
  p_disconnectedAt :: "int option"
  p_connectionDuration :: "int option"
  p_sessionId :: "string option"
  p_metadata :: "metadata_bag option"

definition emptyPartial :: PartialConnectionInfo where
  "emptyPartial = \<lparr>p_deviceId = None, p_deviceIdentifier = None, p_status = None,
     p_protocol = None, p_address = None, p_port = None, p_clientId = None,
     p_lastActivityAt = None, p_connectedAt = None, p_disconnectedAt = None,
     p_connectionDuration = None, p_sessionId = None, p_metadata = None\<rparr>"

text \<open>
  The rows of the durable device table as the two services read and write them
  (\<^verbatim>\<open>prisma.device\<close>): the identifier, the name, the owning organization with its name
  (the \<^verbatim>\<open>include: { organization: true }\<close> of the notification service), the durable
  status and \<^verbatim>\<open>lastOnlineAt\<close>.
\<close>

record Device =
  dev_identifier :: string
  dev_name :: string
  dev_organizationId :: "string option"
  dev_organizationName :: "string option"
  dev_status :: "DeviceConnectionStatus option"
  dev_lastOnlineAt :: "int option"

text \<open>One row written by \<^verbatim>\<open>prisma.deviceConnectionLog.create\<close>.\<close>

record ConnectionLogEntry =
  log_deviceId :: string
  log_status :: DeviceConnectionStatus
  log_protocol :: DeviceProtocol
  log_clientId :: "string option"
  log_ipAddress :: "string option"
  log_port :: "int option"
  log_connectedAt :: "int option"
  log_disconnectedAt :: "int option"
  log_connectionDuration :: "int option"
  log_sessionId :: "string option"
  log_metadata :: "metadata_bag option"

datatype AuditLogLevel = LEVEL_INFO | LEVEL_WARNING | LEVEL_ERROR | LEVEL_CRITICAL

text \<open>
  One call of \<^verbatim>\<open>auditLogService.logSecurityEvent\<close> made by \<^verbatim>\<open>logConnectionStatus\<close>: the
  level, whether the description is the "connected" or the "disconnected" sentence
  (both name the protocol), the device and the details payload.
\<close>

record ConnectionAudit =
  audit_level :: AuditLogLevel
  audit_connected :: bool
  audit_deviceId :: string
  audit_status :: DeviceConnectionStatus
  audit_protocol :: DeviceProtocol
  audit_address :: "string option"
  audit_port :: "int option"
  audit_sessionId :: "string option"
  audit_duration :: "int option"

text \<open>
  The events of the \<^verbatim>\<open>EventEmitter\<close> the service extends, under the names the source
  emits them with, and the payload of the real-time broadcast to the room
  \<^verbatim>\<open>device:<id>\<close>.
\<close>

datatype BusEvent =
    status_change string DeviceConnectionInfo "DeviceConnectionInfo option"
  | device_online string DeviceConnectionInfo
  | device_offline string DeviceConnectionInfo
  | device_inactive string DeviceConnectionInfo
  | device_error string DeviceConnectionInfo

record StatusBroadcast =
  bc_room :: string
  bc_deviceId :: string
  bc_status :: DeviceConnectionStatus
  bc_timestamp :: int

text \<open>
  The state of the service and of its collaborators. The two \<^verbatim>\<open>Map\<close>s are association
  lists in insertion order, as a JavaScript \<^verbatim>\<open>Map\<close> iterates; the heartbeat map keeps
  only its keys, the devices with a running interval timer. The logs, the bus and the
  broadcasts hold the calls made so far, oldest first; an event holds the records as
  they are when it is emitted.

  Each operation below is one call of the source run from its first statement to its
  last, with no other call interleaved at its \<^verbatim>\<open>await\<close>s. The writes to the durable
  store and to the audit log are taken to succeed: the source catches a failing write,
  prints it, and goes on with the registry as it is.
\<close>

record ServiceState =
  deviceConnections :: "(string \<times> DeviceConnectionInfo) list"
  heartbeatIntervals :: "string list"
  devices :: "(string \<times> Device) list"
  connectionLog :: "ConnectionLogEntry list"
  auditLog :: "ConnectionAudit list"
  bus :: "BusEvent list"
  broadcasts :: "StatusBroadcast list"

text \<open>
  What one call reads from outside: the clock at each place the source reads it, and
  the random suffix of a freshly generated session id.
\<close>

record Env =
  env_now :: int
  env_sessionNow :: int
  env_random :: string
  env_updateNow :: int
  env_broadcastNow :: int

datatype error = Error string

section \<open>Operations of the device connection service\<close>

definition INACTIVE_THRESHOLD :: int where
  "INACTIVE_THRESHOLD = 300000"

definition CLEANUP_THRESHOLD :: int where
  "CLEANUP_THRESHOLD = 24 * 60 * 60 * 1000"

text \<open>Decimal printing of a number inside a template string.\<close>

fun digits :: "nat \<Rightarrow> string" where
  "digits n = (if n < 10 then [char_of (48 + n)]
               else digits (n div 10) @ [char_of (48 + n mod 10)])"

declare digits.simps [simp del]

definition showInt :: "int \<Rightarrow> string" where
  "showInt i = (if i < 0 then CHR ''-'' # digits (nat (- i)) else digits (nat i))"

definition generateSessionId :: "Env \<Rightarrow> string" where
  "generateSessionId e = ''session-'' @ showInt (env_sessionNow e) @ ''-'' @ env_random e"

definition DeviceNotFound :: "string \<Rightarrow> error" where
  "DeviceNotFound d = Error (''Device with ID '' @ d @ '' not found'')"

definition getDeviceById :: "ServiceState \<Rightarrow> string \<Rightarrow> Device option" where
  "getDeviceById s d = map_of (devices s) d"

definition getDeviceConnection :: "ServiceState \<Rightarrow> string \<Rightarrow> DeviceConnectionInfo option" where
  "getDeviceConnection s d = map_of (deviceConnections s) d"

definition getAllDeviceConnections :: "ServiceState \<Rightarrow> (string \<times> DeviceConnectionInfo) list" where
  "getAllDeviceConnections s = deviceConnections s"

text \<open>A supplied field of the partial record overrides the field written before the spread.\<close>

definition supplied :: "'a option \<Rightarrow> 'a \<Rightarrow> 'a" where
  "supplied x d = (case x of None \<Rightarrow> d | Some v \<Rightarrow> v)"

definition partialOf :: "PartialConnectionInfo option \<Rightarrow> PartialConnectionInfo" where
  "partialOf ci = (case ci of None \<Rightarrow> emptyPartial | Some p \<Rightarrow> p)"

text \<open>
  The object literal of lines 130-137:
  \<^verbatim>\<open>{ deviceId, deviceIdentifier: device.identifier, status, protocol, lastActivityAt: now, ...connectionInfo }\<close>.
  Nothing of the existing record enters it.
\<close>

definition initialConnectionData ::
  "string \<Rightarrow> Device \<Rightarrow> DeviceConnectionStatus \<Rightarrow> DeviceProtocol \<Rightarrow> int \<Rightarrow>
   PartialConnectionInfo \<Rightarrow> DeviceConnectionInfo" where
  "initialConnectionData d dev st pr t p =
     \<lparr>deviceId = supplied (p_deviceId p) d,
      deviceIdentifier = supplied (p_deviceIdentifier p) (dev_identifier dev),
      status = supplied (p_status p) st,
      protocol = supplied (p_protocol p) pr,
      address = p_address p,
      port = p_port p,
      clientId = p_clientId p,
      lastActivityAt = supplied (p_lastActivityAt p) t,
      connectedAt = p_connectedAt p,
      disconnectedAt = p_disconnectedAt p,
      connectionDuration = p_connectionDuration p,
      sessionId = p_sessionId p,
      metadata = p_metadata p\<rparr>"

text \<open>
  The branches on the \<^verbatim>\<open>status\<close> argument (lines 140-168), without the timer calls.
  \<^verbatim>\<open>Math.floor(duration / 1000)\<close> is \<open>div\<close>, which rounds down on \<open>int\<close>.
\<close>

definition applyStatusRules ::
  "DeviceConnectionStatus \<Rightarrow> DeviceConnectionInfo option \<Rightarrow> Env \<Rightarrow>
   DeviceConnectionInfo \<Rightarrow> DeviceConnectionInfo" where
  "applyStatusRules st existing e c =
     (if st = ONLINE then
        (case existing of
           None \<Rightarrow> c\<lparr>connectedAt := Some (env_now e), sessionId := Some (generateSessionId e),
                     disconnectedAt := None\<rparr>
         | Some old \<Rightarrow>
             if status old \<noteq> ONLINE
             then c\<lparr>connectedAt := Some (env_now e), sessionId := Some (generateSessionId e),
                     disconnectedAt := None\<rparr>
             else c\<lparr>connectedAt := connectedAt old, sessionId := sessionId old,
                     disconnectedAt := None\<rparr>)
      else if st = OFFLINE then
        (case existing of
           None \<Rightarrow> c\<lparr>disconnectedAt := Some (env_now e)\<rparr>
         | Some old \<Rightarrow>
             (case connectedAt old of
                None \<Rightarrow> c\<lparr>disconnectedAt := Some (env_now e)\<rparr>
              | Some t0 \<Rightarrow> c\<lparr>disconnectedAt := Some (env_now e),
                              connectionDuration := Some ((env_now e - t0) div 1000)\<rparr>))
      else c)"

definition clearHeartbeat :: "string \<Rightarrow> ServiceState \<Rightarrow> ServiceState" where
  "clearHeartbeat d s = s\<lparr>heartbeatIntervals := removeAll d (heartbeatIntervals s)\<rparr>"

definition setupHeartbeat :: "string \<Rightarrow> ServiceState \<Rightarrow> ServiceState" where
  "setupHeartbeat d s =
     (let s1 = clearHeartbeat d s
      in s1\<lparr>heartbeatIntervals := heartbeatIntervals s1 @ [d]\<rparr>)"

definition applyHeartbeatRules :: "DeviceConnectionStatus \<Rightarrow> string \<Rightarrow> ServiceState \<Rightarrow> ServiceState" where
  "applyHeartbeatRules st d s =
     (if st = ONLINE then setupHeartbeat d s
      else if st = OFFLINE then clearHeartbeat d s
      else s)"

text \<open>
  \<^verbatim>\<open>logConnectionStatus\<close>: the row handed to \<^verbatim>\<open>prisma.deviceConnectionLog.create\<close>, the
  audit call that follows it, and the two writes. The switch that converts the protocol
  enum maps every member to the member of the same name.
\<close>

definition connectionLogRow ::
  "string \<Rightarrow> DeviceConnectionStatus \<Rightarrow> DeviceProtocol \<Rightarrow> DeviceConnectionInfo \<Rightarrow>
   ConnectionLogEntry" where
  "connectionLogRow d st pr c =
     \<lparr>log_deviceId = d, log_status = st, log_protocol = pr,
      log_clientId = clientId c, log_ipAddress = address c, log_port = port c,
      log_connectedAt = connectedAt c, log_disconnectedAt = disconnectedAt c,
      log_connectionDuration = connectionDuration c, log_sessionId = sessionId c,
      log_metadata = metadata c\<rparr>"

definition connectionAudit ::
  "string \<Rightarrow> DeviceConnectionStatus \<Rightarrow> DeviceProtocol \<Rightarrow> DeviceConnectionInfo \<Rightarrow>
   ConnectionAudit" where
  "connectionAudit d st pr c =
     \<lparr>audit_level = (if st = ONLINE then LEVEL_INFO else LEVEL_WARNING),
      audit_connected = (st = ONLINE), audit_deviceId = d, audit_status = st,
      audit_protocol = pr, audit_address = address c, audit_port = port c,
      audit_sessionId = sessionId c, audit_duration = connectionDuration c\<rparr>"

definition logConnectionStatus ::
  "string \<Rightarrow> DeviceConnectionStatus \<Rightarrow> DeviceProtocol \<Rightarrow> DeviceConnectionInfo \<Rightarrow>
   ServiceState \<Rightarrow> ServiceState" where
  "logConnectionStatus d st pr c s =
     s\<lparr>connectionLog := connectionLog s @ [connectionLogRow d st pr c],
       auditLog := auditLog s @ [connectionAudit d st pr c]\<rparr>"

text \<open>
  \<^verbatim>\<open>prisma.device.update\<close>: the durable status is overwritten; \<^verbatim>\<open>lastOnlineAt\<close> is
  written only for ONLINE (an \<^verbatim>\<open>undefined\<close> field is left as it was). A missing row makes
  the update throw, which the source catches and logs.
\<close>

definition updateDeviceStatus :: "string \<Rightarrow> DeviceConnectionStatus \<Rightarrow> Env \<Rightarrow> ServiceState \<Rightarrow> ServiceState" where
  "updateDeviceStatus d st e s =
     (case map_of (devices s) d of
        None \<Rightarrow> s
      | Some dev \<Rightarrow>
          s\<lparr>devices := AList.update d
               (dev\<lparr>dev_status := Some st,
                    dev_lastOnlineAt :=
                      (if st = ONLINE then Some (env_updateNow e) else dev_lastOnlineAt dev)\<rparr>)
               (devices s)\<rparr>)"

definition statusEvent :: "string \<Rightarrow> DeviceConnectionInfo \<Rightarrow> BusEvent" where
  "statusEvent d c =
     (case status c of
        ONLINE \<Rightarrow> device_online d c
      | OFFLINE \<Rightarrow> device_offline d c
      | INACTIVE \<Rightarrow> device_inactive d c
      | ERROR \<Rightarrow> device_error d c)"

definition statusUnchanged :: "DeviceConnectionInfo option \<Rightarrow> DeviceConnectionInfo \<Rightarrow> bool" where
  "statusUnchanged oldConnection newConnection =
     (case oldConnection of None \<Rightarrow> False | Some old \<Rightarrow> status old = status newConnection)"

definition emitStatusChange ::
  "string \<Rightarrow> DeviceConnectionInfo \<Rightarrow> DeviceConnectionInfo option \<Rightarrow> Env \<Rightarrow>
   ServiceState \<Rightarrow> ServiceState" where
  "emitStatusChange d newConnection oldConnection e s =
     (if statusUnchanged oldConnection newConnection then s
      else s\<lparr>bus := bus s @ [status_change d newConnection oldConnection,
                              statusEvent d newConnection],
             broadcasts := broadcasts s @
               [\<lparr>bc_room = ''device:'' @ d, bc_deviceId = d,
                 bc_status = status newConnection, bc_timestamp = env_broadcastNow e\<rparr>]\<rparr>)"

text \<open>
  \<^verbatim>\<open>setDeviceStatus\<close>. The result pairs what the caller receives (the thrown error or
  the returned record) with the state the call leaves behind.
\<close>

definition setDeviceStatus ::
  "string \<Rightarrow> DeviceConnectionStatus \<Rightarrow> DeviceProtocol \<Rightarrow> PartialConnectionInfo option \<Rightarrow>
   Env \<Rightarrow> ServiceState \<Rightarrow> (error + DeviceConnectionInfo) \<times> ServiceState" where
  "setDeviceStatus d st pr connectionInfo e s =
     (case getDeviceById s d of
        None \<Rightarrow> (Inl (DeviceNotFound d), s)
      | Some dev \<Rightarrow>
          (let existingConnection = map_of (deviceConnections s) d;
               connectionData = applyStatusRules st existingConnection e
                  (initialConnectionData d dev st pr (env_now e) (partialOf connectionInfo));
               s1 = applyHeartbeatRules st d s;
               s2 = s1\<lparr>deviceConnections := AList.update d connectionData (deviceConnections s1)\<rparr>;
               s3 = logConnectionStatus d st pr connectionData s2;
               s4 = updateDeviceStatus d st e s3;
               s5 = emitStatusChange d connectionData existingConnection e s4
           in (Inr connectionData, s5)))"

text \<open>
  Object spread \<^verbatim>\<open>{ ...a, ...b }\<close> on key/value lists: the keys of \<open>a\<close> keep their
  place and take the value \<open>b\<close> gives them, the new keys of \<open>b\<close> follow. Spreading
  \<^verbatim>\<open>undefined\<close> contributes nothing.
\<close>

definition spread :: "metadata_bag \<Rightarrow> metadata_bag \<Rightarrow> metadata_bag" where
  "spread a b = fold (\<lambda>(k, v). AList.update k v) b a"

definition bagOf :: "metadata_bag option \<Rightarrow> metadata_bag" where
  "bagOf m = (case m of None \<Rightarrow> [] | Some b \<Rightarrow> b)"

text \<open>
  \<^verbatim>\<open>updateDeviceActivity\<close>; the third argument is the clock read by \<^verbatim>\<open>new Date()\<close>. An
  object passed as \<^verbatim>\<open>metadata\<close> is truthy even when it is empty.
\<close>

definition updateDeviceActivity ::
  "string \<Rightarrow> metadata_bag option \<Rightarrow> int \<Rightarrow> ServiceState \<Rightarrow> ServiceState" where
  "updateDeviceActivity d md t s =
     (case map_of (deviceConnections s) d of
        None \<Rightarrow> s
      | Some connection \<Rightarrow>
          (let c1 = connection\<lparr>lastActivityAt := t\<rparr>;
               c2 = (case md of
                       None \<Rightarrow> c1
                     | Some m \<Rightarrow> c1\<lparr>metadata := Some (spread (bagOf (metadata c1)) m)\<rparr>)
           in s\<lparr>deviceConnections := AList.update d c2 (deviceConnections s)\<rparr>))"

definition getOnlineDeviceCount :: "ServiceState \<Rightarrow> nat" where
  "getOnlineDeviceCount s =
     fold (\<lambda>(d, connection) count. if status connection = ONLINE then count + 1 else count)
       (deviceConnections s) 0"

text \<open>
  \<^verbatim>\<open>getDeviceConnectionStatsByProtocol\<close>: the result object has one counter for each of
  the seven protocols, so it is a function on \<open>DeviceProtocol\<close>.
\<close>

definition getDeviceConnectionStatsByProtocol :: "ServiceState \<Rightarrow> DeviceProtocol \<Rightarrow> nat" where
  "getDeviceConnectionStatsByProtocol s =
     fold (\<lambda>(d, connection) stats.
             if status connection = ONLINE
             then stats(protocol connection := stats (protocol connection) + 1)
             else stats)
       (deviceConnections s) (\<lambda>p. 0)"

definition allProtocols :: "DeviceProtocol list" where
  "allProtocols = [MQTT, TCP, UDP, HTTP, WEBSOCKET, COAP, UNKNOWN]"

text \<open>
  One firing of the interval callback installed by \<^verbatim>\<open>setupHeartbeat\<close> for device \<open>d\<close>,
  with the clock \<open>t\<close> it reads. The rejection of the awaited \<^verbatim>\<open>setDeviceStatus\<close> is the
  \<open>Inl\<close> result.
\<close>

definition heartbeatTick ::
  "string \<Rightarrow> int \<Rightarrow> Env \<Rightarrow> ServiceState \<Rightarrow> (error + unit) \<times> ServiceState" where
  "heartbeatTick d t e s =
     (case map_of (deviceConnections s) d of
        None \<Rightarrow> (Inr (), clearHeartbeat d s)
      | Some connection \<Rightarrow>
          (let lastActivity = lastActivityAt connection;
               inactiveTime = t - lastActivity
           in if inactiveTime > INACTIVE_THRESHOLD
              then (case setDeviceStatus d INACTIVE (protocol connection)
                           (Some (emptyPartial\<lparr>p_lastActivityAt := Some lastActivity,
                              p_metadata := Some (spread (bagOf (metadata connection))
                                [(''inactiveReason'', MString ''Heartbeat timeout'')])\<rparr>)) e s of
                      (Inl err, s') \<Rightarrow> (Inl err, s')
                    | (Inr r, s') \<Rightarrow> (Inr (), s'))
              else (Inr (), s)))"

text \<open>
  \<^verbatim>\<open>cleanupInactiveConnections\<close> with the clock \<open>t\<close> it reads once: the first loop
  collects the keys, the second handles them one by one.
\<close>

definition staleConnection :: "int \<Rightarrow> DeviceConnectionInfo \<Rightarrow> bool" where
  "staleConnection t connection =
     ((status connection = INACTIVE \<or> status connection = ERROR) \<and>
      t - lastActivityAt connection > CLEANUP_THRESHOLD)"

definition devicesToCleanup :: "int \<Rightarrow> ServiceState \<Rightarrow> string list" where
  "devicesToCleanup t s =
     map fst (filter (\<lambda>(d, connection). staleConnection t connection) (deviceConnections s))"

definition cleanupRecord :: "int \<Rightarrow> DeviceConnectionInfo \<Rightarrow> DeviceConnectionInfo" where
  "cleanupRecord t connection =
     connection\<lparr>status := OFFLINE, disconnectedAt := Some t,
       metadata := Some (spread (bagOf (metadata connection))
         [(''cleanupReason'', MString ''Inactive for more than 24 hours'')])\<rparr>"

definition cleanupConnection :: "int \<Rightarrow> string \<Rightarrow> ServiceState \<Rightarrow> ServiceState" where
  "cleanupConnection t d s =
     (case map_of (deviceConnections s) d of
        None \<Rightarrow> s
      | Some connection \<Rightarrow>
          (let s1 = logConnectionStatus d OFFLINE (protocol connection)
                      (cleanupRecord t connection) s;
               s2 = s1\<lparr>deviceConnections := AList.delete d (deviceConnections s1)\<rparr>
           in clearHeartbeat d s2))"

definition cleanupInactiveConnections :: "int \<Rightarrow> ServiceState \<Rightarrow> ServiceState" where
  "cleanupInactiveConnections t s = fold (cleanupConnection t) (devicesToCleanup t s) s"

section \<open>The notification service\<close>

text \<open>
  \<^verbatim>\<open>DeviceNotificationService\<close> (the second file kept in
  \<^verbatim>\<open>src/lib/video-stream-service.ts\<close>).
\<close>

datatype NotificationType =
    DEVICE_ONLINE | DEVICE_OFFLINE | DEVICE_INACTIVE | DEVICE_ERROR
  | DEVICE_ALARM | DEVICE_COMMAND_RESPONSE | DEVICE_DATA_ANOMALY | SYSTEM_ERROR

datatype NotificationChannel = CHANNEL_WEBSOCKET | EMAIL | SMS | PUSH | WEBHOOK

datatype NotificationPriority = LOW | MEDIUM | HIGH | CRITICAL

record NotificationConfig =
  cfg_type :: NotificationType
  cfg_channels :: "NotificationChannel list"
  cfg_priority :: NotificationPriority
  cfg_enabled :: bool
  cfg_template :: "string option"
  cfg_config :: "metadata_bag option"

text \<open>
  Titles and contents are localized template strings; the model keeps which template
  was chosen and the values interpolated into it, in order.
\<close>

datatype TextArg =
    ArgString string | ArgNumber int | ArgLocalTime int | ArgProtocol DeviceProtocol

datatype NotificationText =
    TitleTemplate NotificationType "TextArg list"
  | ContentTemplate NotificationType "TextArg list"

record StatusData =
  data_status :: DeviceConnectionStatus
  data_protocol :: DeviceProtocol
  data_address :: "string option"
  data_port :: "int option"
  data_lastActivityAt :: int
  data_connectedAt :: "int option"
  data_disconnectedAt :: "int option"
  data_connectionDuration :: "int option"

text \<open>The read-tracking fields of the interface, which no code writes, are left out.\<close>

record NotificationMessage =
  msg_id :: string
  msg_type :: NotificationType
  msg_title :: NotificationText
  msg_content :: NotificationText
  msg_timestamp :: int
  msg_priority :: NotificationPriority
  msg_deviceId :: "string option"
  msg_deviceIdentifier :: "string option"
  msg_deviceName :: "string option"
  msg_organizationId :: "string option"
  msg_organizationName :: "string option"
  msg_data :: "StatusData option"

text \<open>
  The state of the notification service and what it has handed to its collaborators:
  \<open>deliveries\<close> holds one entry for each call of one of the five per-channel send
  functions (for e-mail, SMS, push and webhook the function only prints the title and
  the content), \<open>roomBroadcasts\<close> the calls of \<^verbatim>\<open>websocketService.broadcastToRoom\<close> with
  their room, \<open>sentEvents\<close> the \<^verbatim>\<open>notification_sent\<close> events, \<open>notificationAudit\<close> the
  audit calls of \<^verbatim>\<open>logNotification\<close>.
\<close>

record NotificationState =
  notificationConfigs :: "(string \<times> NotificationConfig list) list"
  defaultConfigs :: "NotificationConfig list"
  deliveries :: "(NotificationChannel \<times> NotificationMessage) list"
  roomBroadcasts :: "(string \<times> NotificationMessage) list"
  sentEvents :: "NotificationMessage list"
  notificationAudit :: "(AuditLogLevel \<times> NotificationMessage) list"

record NotifyEnv =
  nenv_idNow :: int
  nenv_random :: string
  nenv_contentNow :: int
  nenv_timestamp :: int

definition setNotificationConfigs ::
  "string \<Rightarrow> NotificationConfig list \<Rightarrow> NotificationState \<Rightarrow> NotificationState" where
  "setNotificationConfigs organization configs ns =
     ns\<lparr>notificationConfigs := AList.update organization configs (notificationConfigs ns)\<rparr>"

text \<open>An array is truthy even when empty, so the defaults apply only to a missing entry.\<close>

definition getNotificationConfigs :: "NotificationState \<Rightarrow> string \<Rightarrow> NotificationConfig list" where
  "getNotificationConfigs ns organization =
     (case map_of (notificationConfigs ns) organization of
        None \<Rightarrow> defaultConfigs ns
      | Some configs \<Rightarrow> configs)"

definition defaultConfig ::
  "NotificationType \<Rightarrow> NotificationChannel list \<Rightarrow> NotificationPriority \<Rightarrow> NotificationConfig" where
  "defaultConfig ty chs pri =
     \<lparr>cfg_type = ty, cfg_channels = chs, cfg_priority = pri, cfg_enabled = True,
      cfg_template = None, cfg_config = None\<rparr>"

definition loadDefaultConfigs :: "NotificationState \<Rightarrow> NotificationState" where
  "loadDefaultConfigs ns = ns\<lparr>defaultConfigs :=
     [defaultConfig DEVICE_ONLINE [CHANNEL_WEBSOCKET] LOW,
      defaultConfig DEVICE_OFFLINE [CHANNEL_WEBSOCKET] MEDIUM,
      defaultConfig DEVICE_INACTIVE [CHANNEL_WEBSOCKET, EMAIL] MEDIUM,
      defaultConfig DEVICE_ERROR [CHANNEL_WEBSOCKET, EMAIL] HIGH,
      defaultConfig DEVICE_ALARM [CHANNEL_WEBSOCKET, EMAIL, SMS] HIGH,
      defaultConfig DEVICE_COMMAND_RESPONSE [CHANNEL_WEBSOCKET] LOW,
      defaultConfig DEVICE_DATA_ANOMALY [CHANNEL_WEBSOCKET, EMAIL] MEDIUM,
      defaultConfig SYSTEM_ERROR [CHANNEL_WEBSOCKET, EMAIL] CRITICAL]\<rparr>"

definition initialNotificationState :: NotificationState where
  "initialNotificationState =
     loadDefaultConfigs \<lparr>notificationConfigs = [], defaultConfigs = [], deliveries = [],
       roomBroadcasts = [], sentEvents = [], notificationAudit = []\<rparr>"

text \<open>
  A string is truthy when it is present and not empty: \<open>truthy x\<close> is the string when
  it is, \<open>None\<close> otherwise.
\<close>

definition truthy :: "string option \<Rightarrow> string option" where
  "truthy x = (case x of None \<Rightarrow> None | Some v \<Rightarrow> if v = [] then None else Some v)"

definition broadcastToRoom ::
  "string \<Rightarrow> NotificationMessage \<Rightarrow> NotificationState \<Rightarrow> NotificationState" where
  "broadcastToRoom room message ns = ns\<lparr>roomBroadcasts := roomBroadcasts ns @ [(room, message)]\<rparr>"

definition recordDelivery ::
  "NotificationChannel \<Rightarrow> NotificationMessage \<Rightarrow> NotificationState \<Rightarrow> NotificationState" where
  "recordDelivery channel message ns = ns\<lparr>deliveries := deliveries ns @ [(channel, message)]\<rparr>"

definition sendWebSocketNotification :: "NotificationMessage \<Rightarrow> NotificationState \<Rightarrow> NotificationState" where
  "sendWebSocketNotification message ns =
     (let n0 = recordDelivery CHANNEL_WEBSOCKET message ns;
          n1 = (case truthy (msg_deviceId message) of
                  Some d \<Rightarrow> broadcastToRoom (''device:'' @ d) message n0
                | None \<Rightarrow> n0);
          n2 = (case truthy (msg_organizationId message) of
                  Some organization \<Rightarrow> broadcastToRoom (''organization:'' @ organization) message n1
                | None \<Rightarrow> n1)
      in if msg_priority message = HIGH \<or> msg_priority message = CRITICAL
         then broadcastToRoom ''notifications'' message n2
         else n2)"

definition sendEmailNotification :: "NotificationMessage \<Rightarrow> NotificationState \<Rightarrow> NotificationState" where
  "sendEmailNotification message ns = recordDelivery EMAIL message ns"

definition sendSmsNotification :: "NotificationMessage \<Rightarrow> NotificationState \<Rightarrow> NotificationState" where
  "sendSmsNotification message ns = recordDelivery SMS message ns"

definition sendPushNotification :: "NotificationMessage \<Rightarrow> NotificationState \<Rightarrow> NotificationState" where
  "sendPushNotification message ns = recordDelivery PUSH message ns"

definition sendWebhookNotification :: "NotificationMessage \<Rightarrow> NotificationState \<Rightarrow> NotificationState" where
  "sendWebhookNotification message ns = recordDelivery WEBHOOK message ns"

definition sendToChannel ::
  "NotificationMessage \<Rightarrow> NotificationChannel \<Rightarrow> NotificationState \<Rightarrow> NotificationState" where
  "sendToChannel message channel ns =
     (case channel of
        CHANNEL_WEBSOCKET \<Rightarrow> sendWebSocketNotification message ns
      | EMAIL \<Rightarrow> sendEmailNotification message ns
      | SMS \<Rightarrow> sendSmsNotification message ns
      | PUSH \<Rightarrow> sendPushNotification message ns
      | WEBHOOK \<Rightarrow> sendWebhookNotification message ns)"

definition sendNotification ::
  "NotificationMessage \<Rightarrow> NotificationChannel list \<Rightarrow> NotificationState \<Rightarrow> NotificationState" where
  "sendNotification message channels ns =
     (let n1 = fold (sendToChannel message) channels ns
      in n1\<lparr>sentEvents := sentEvents n1 @ [message]\<rparr>)"

definition logNotification :: "NotificationMessage \<Rightarrow> NotificationState \<Rightarrow> NotificationState" where
  "logNotification message ns =
     ns\<lparr>notificationAudit := notificationAudit ns @
        [(if msg_priority message = CRITICAL then LEVEL_CRITICAL
          else if msg_priority message = HIGH then LEVEL_ERROR
          else if msg_priority message = MEDIUM then LEVEL_WARNING
          else LEVEL_INFO, message)]\<rparr>"

definition generateNotificationId :: "NotifyEnv \<Rightarrow> string" where
  "generateNotificationId e = ''notification-'' @ showInt (nenv_idNow e) @ ''-'' @ nenv_random e"

definition generateNotificationTitle :: "NotificationType \<Rightarrow> Device \<Rightarrow> NotificationText" where
  "generateNotificationTitle ty device =
     (if ty = SYSTEM_ERROR then TitleTemplate ty []
      else TitleTemplate ty [ArgString (dev_name device)])"

definition generateNotificationContent ::
  "NotificationType \<Rightarrow> Device \<Rightarrow> DeviceConnectionInfo \<Rightarrow> NotifyEnv \<Rightarrow> NotificationText" where
  "generateNotificationContent ty device connectionInfo e =
     (let who = [ArgString (dev_name device), ArgString (dev_identifier device)];
          time = ArgLocalTime (nenv_contentNow e)
      in case ty of
           DEVICE_ONLINE \<Rightarrow> ContentTemplate ty (who @ [time, ArgProtocol (protocol connectionInfo)])
         | DEVICE_OFFLINE \<Rightarrow>
             ContentTemplate ty (who @ [time,
               ArgNumber (case connectionDuration connectionInfo of None \<Rightarrow> 0 | Some n \<Rightarrow> n)])
         | DEVICE_INACTIVE \<Rightarrow>
             ContentTemplate ty (who @ [time, ArgLocalTime (lastActivityAt connectionInfo)])
         | DEVICE_ERROR \<Rightarrow> ContentTemplate ty (who @ [time])
         | _ \<Rightarrow> ContentTemplate ty who)"

definition notificationTypeOf :: "DeviceConnectionStatus \<Rightarrow> NotificationType" where
  "notificationTypeOf st =
     (case st of
        ONLINE \<Rightarrow> DEVICE_ONLINE
      | OFFLINE \<Rightarrow> DEVICE_OFFLINE
      | INACTIVE \<Rightarrow> DEVICE_INACTIVE
      | ERROR \<Rightarrow> DEVICE_ERROR)"

text \<open>\<^verbatim>\<open>device.organizationId || 'default'\<close> and \<^verbatim>\<open>device.organizationId || undefined\<close>.\<close>

definition organizationKey :: "Device \<Rightarrow> string" where
  "organizationKey device =
     (case truthy (dev_organizationId device) of Some organization \<Rightarrow> organization | None \<Rightarrow> ''default'')"

definition organizationOf :: "Device \<Rightarrow> string option" where
  "organizationOf device = truthy (dev_organizationId device)"

definition buildMessage ::
  "string \<Rightarrow> DeviceConnectionStatus \<Rightarrow> DeviceConnectionInfo \<Rightarrow> Device \<Rightarrow>
   NotificationConfig \<Rightarrow> NotifyEnv \<Rightarrow> NotificationMessage" where
  "buildMessage d st connectionInfo device matchingConfig e =
     \<lparr>msg_id = generateNotificationId e,
      msg_type = notificationTypeOf st,
      msg_title = generateNotificationTitle (notificationTypeOf st) device,
      msg_content = generateNotificationContent (notificationTypeOf st) device connectionInfo e,
      msg_timestamp = nenv_timestamp e,
      msg_priority = cfg_priority matchingConfig,
      msg_deviceId = Some d,
      msg_deviceIdentifier = Some (dev_identifier device),
      msg_deviceName = Some (dev_name device),
      msg_organizationId = organizationOf device,
      msg_organizationName = dev_organizationName device,
      msg_data = Some \<lparr>data_status = st, data_protocol = protocol connectionInfo,
        data_address = address connectionInfo, data_port = port connectionInfo,
        data_lastActivityAt = lastActivityAt connectionInfo,
        data_connectedAt = connectedAt connectionInfo,
        data_disconnectedAt = disconnectedAt connectionInfo,
        data_connectionDuration = connectionDuration connectionInfo\<rparr>\<rparr>"

text \<open>
  \<^verbatim>\<open>sendDeviceStatusNotification\<close>, reading the device table \<open>store\<close>. A device that is
  not found, or a lookup that throws, ends the call with nothing sent.
\<close>

definition sendDeviceStatusNotification ::
  "string \<Rightarrow> DeviceConnectionStatus \<Rightarrow> DeviceConnectionInfo \<Rightarrow> NotifyEnv \<Rightarrow>
   (string \<times> Device) list \<Rightarrow> NotificationState \<Rightarrow> NotificationState" where
  "sendDeviceStatusNotification d st connectionInfo e store ns =
     (case map_of store d of
        None \<Rightarrow> ns
      | Some device \<Rightarrow>
          (case find (\<lambda>config. cfg_type config = notificationTypeOf st \<and> cfg_enabled config)
                  (getNotificationConfigs ns (organizationKey device)) of
             None \<Rightarrow> ns
           | Some matchingConfig \<Rightarrow>
               (let message = buildMessage d st connectionInfo device matchingConfig e
                in logNotification message
                     (sendNotification message (cfg_channels matchingConfig) ns))))"

text \<open>
  The five listeners registered by \<^verbatim>\<open>setupEventListeners\<close>: what the notification
  service does when the connection service emits one event.
\<close>

definition onBusEvent ::
  "BusEvent \<Rightarrow> NotifyEnv \<Rightarrow> (string \<times> Device) list \<Rightarrow> NotificationState \<Rightarrow> NotificationState" where
  "onBusEvent ev e store ns =
     (case ev of
        status_change d newConnection oldConnection \<Rightarrow>
          sendDeviceStatusNotification d (status newConnection) newConnection e store ns
      | device_online d connectionInfo \<Rightarrow>
          sendDeviceStatusNotification d ONLINE connectionInfo e store ns
      | device_offline d connectionInfo \<Rightarrow>
          sendDeviceStatusNotification d OFFLINE connectionInfo e store ns
      | device_inactive d connectionInfo \<Rightarrow>
          sendDeviceStatusNotification d INACTIVE connectionInfo e store ns
      | device_error d connectionInfo \<Rightarrow>
          sendDeviceStatusNotification d ERROR connectionInfo e store ns)"

text \<open>
  The events one call of the connection service has added to the bus, and the
  notification service handling them in the order of their emission; \<open>envs i\<close> holds
  the clock and random readings of the handler of the \<open>i\<close>-th event.
\<close>

definition newEvents :: "ServiceState \<Rightarrow> ServiceState \<Rightarrow> BusEvent list" where
  "newEvents s s' = drop (length (bus s)) (bus s')"

fun handleEvents ::
  "BusEvent list \<Rightarrow> (nat \<Rightarrow> NotifyEnv) \<Rightarrow> (string \<times> Device) list \<Rightarrow> NotificationState \<Rightarrow>
   NotificationState" where
  "handleEvents [] envs store ns = ns"
| "handleEvents (ev # evs) envs store ns =
     handleEvents evs (\<lambda>i. envs (Suc i)) store (onBusEvent ev (envs 0) store ns)"

definition attempts :: "NotificationChannel \<Rightarrow> NotificationState \<Rightarrow> nat" where
  "attempts channel ns = length (filter (\<lambda>(ch, message). ch = channel) (deliveries ns))"

definition systemWide :: "NotificationMessage \<Rightarrow> NotificationState \<Rightarrow> nat" where
  "systemWide message ns =
     length (filter (\<lambda>(room, m). room = ''notifications'' \<and> m = message) (roomBroadcasts ns))"

section \<open>A concrete scenario\<close>

text \<open>
  One device \<^verbatim>\<open>dev-1\<close> of organization \<^verbatim>\<open>org-1\<close> in the durable store, a freshly
  constructed connection service, and readings of the clock: the inputs at which the
  theorems below are instantiated.
\<close>

definition exampleDevice :: Device where
  "exampleDevice = \<lparr>dev_identifier = ''sensor-001'', dev_name = ''Sensor 1'',
     dev_organizationId = Some ''org-1'', dev_organizationName = Some ''Org One'',
     dev_status = None, dev_lastOnlineAt = None\<rparr>"

definition initialState :: "(string \<times> Device) list \<Rightarrow> ServiceState" where
  "initialState store = \<lparr>deviceConnections = [], heartbeatIntervals = [], devices = store,
     connectionLog = [], auditLog = [], bus = [], broadcasts = []\<rparr>"

definition exampleState :: ServiceState where
  "exampleState = initialState [(''dev-1'', exampleDevice)]"

definition envAt :: "int \<Rightarrow> Env" where
  "envAt t = \<lparr>env_now = t, env_sessionNow = t, env_random = ''k3j9x2'', env_updateNow = t,
     env_broadcastNow = t\<rparr>"

definition notifyEnvAt :: "int \<Rightarrow> NotifyEnv" where
  "notifyEnvAt t = \<lparr>nenv_idNow = t, nenv_random = ''q7w1e5'', nenv_contentNow = t,
     nenv_timestamp = t\<rparr>"

text \<open>
  The device connects over TCP (the call the \<^verbatim>\<open>connection\<close> listener of the TCP
  service makes), which leaves \<open>connectedRecord\<close> in the registry.
\<close>

definition tcpInfo :: PartialConnectionInfo where
  "tcpInfo = emptyPartial\<lparr>p_clientId := Some ''conn-7'', p_address := Some ''10.0.0.5'',
     p_port := Some 4021\<rparr>"

definition connectedState :: ServiceState where
  "connectedState =
     snd (setDeviceStatus ''dev-1'' ONLINE TCP (Some tcpInfo) (envAt 1000) exampleState)"

definition connectedRecord :: DeviceConnectionInfo where
  "connectedRecord = \<lparr>deviceId = ''dev-1'', deviceIdentifier = ''sensor-001'', status = ONLINE,
     protocol = TCP, address = Some ''10.0.0.5'', port = Some 4021, clientId = Some ''conn-7'',
     lastActivityAt = 1000, connectedAt = Some 1000, disconnectedAt = None,
     connectionDuration = None, sessionId = Some (generateSessionId (envAt 1000)),
     metadata = None\<rparr>"

text \<open>
  The device comes online over MQTT at time 0 and sends nothing, which leaves
  \<open>onlineRecord\<close>; the heartbeat callback fires every minute and finds the threshold
  exceeded for the first time after six minutes.
\<close>

definition onlineState :: ServiceState where
  "onlineState = snd (setDeviceStatus ''dev-1'' ONLINE MQTT None (envAt 0) exampleState)"

definition onlineRecord :: DeviceConnectionInfo where
  "onlineRecord = \<lparr>deviceId = ''dev-1'', deviceIdentifier = ''sensor-001'', status = ONLINE,
     protocol = MQTT, address = None, port = None, clientId = None, lastActivityAt = 0,
     connectedAt = Some 0, disconnectedAt = None, connectionDuration = None,
     sessionId = Some (generateSessionId (envAt 0)), metadata = None\<rparr>"

text \<open>
  The device, never online before (so no heartbeat timer runs), is reported in ERROR at
  time 0, which leaves \<open>errorRecord\<close>. A message that arrives after 23 hours is recorded
  as activity by the \<^verbatim>\<open>message\<close> listener. The sweep runs every five minutes.
\<close>

definition errorState :: ServiceState where
  "errorState = snd (setDeviceStatus ''dev-1'' ERROR MQTT None (envAt 0) exampleState)"

definition errorRecord :: DeviceConnectionInfo where
  "errorRecord = \<lparr>deviceId = ''dev-1'', deviceIdentifier = ''sensor-001'', status = ERROR,
     protocol = MQTT, address = None, port = None, clientId = None,
     lastActivityAt = 0, connectedAt = None, disconnectedAt = None,
     connectionDuration = None, sessionId = None, metadata = None\<rparr>"

definition lastMessage :: metadata_bag where
  "lastMessage = [(''lastMessage'',
     MObject [(''topic'', MString ''devices/dev-1/data''), (''timestamp'', MDate 82800000)])]"

definition activeAgainState :: ServiceState where
  "activeAgainState = updateDeviceActivity ''dev-1'' (Some lastMessage) 82800000 errorState"

text \<open>
  The TCP socket of the connected device closes after a minute: the OFFLINE call of the
  \<^verbatim>\<open>socket_close\<close> listener, which leaves \<open>offlineRecord\<close>. The organization has one
  configuration, for DEVICE_OFFLINE, enabled, with the channels e-mail and SMS at
  priority MEDIUM; \<open>notifiedState\<close> is the notification service after its listeners have
  handled the events of that one transition.
\<close>

definition offlineState :: ServiceState where
  "offlineState = snd (setDeviceStatus ''dev-1'' OFFLINE TCP None (envAt 61000) connectedState)"

definition offlineRecord :: DeviceConnectionInfo where
  "offlineRecord = \<lparr>deviceId = ''dev-1'', deviceIdentifier = ''sensor-001'', status = OFFLINE,
     protocol = TCP, address = None, port = None, clientId = None,
     lastActivityAt = 61000, connectedAt = None, disconnectedAt = Some 61000,
     connectionDuration = Some 60, sessionId = None, metadata = None\<rparr>"

definition offlineConfigs :: "NotificationConfig list" where
  "offlineConfigs = [\<lparr>cfg_type = DEVICE_OFFLINE, cfg_channels = [EMAIL, SMS],
     cfg_priority = MEDIUM, cfg_enabled = True, cfg_template = None, cfg_config = None\<rparr>]"

definition configuredNotifier :: NotificationState where
  "configuredNotifier = setNotificationConfigs ''org-1'' offlineConfigs initialNotificationState"

definition notifiedState :: NotificationState where
  "notifiedState = handleEvents (newEvents connectedState offlineState)
     (\<lambda>i. notifyEnvAt (61000 + int i)) (devices offlineState) configuredNotifier"

text \<open>A message of priority CRITICAL about the device.\<close>

definition criticalMessage :: NotificationMessage where
  "criticalMessage = \<lparr>msg_id = ''notification-1-a'', msg_type = DEVICE_ERROR,
     msg_title = TitleTemplate DEVICE_ERROR [ArgString ''Sensor 1''],
     msg_content = ContentTemplate DEVICE_ERROR
       [ArgString ''Sensor 1'', ArgString ''sensor-001'', ArgLocalTime 1],
     msg_timestamp = 1, msg_priority = CRITICAL, msg_deviceId = Some ''dev-1'',
     msg_deviceIdentifier = Some ''sensor-001'', msg_deviceName = Some ''Sensor 1'',
     msg_organizationId = Some ''org-1'', msg_organizationName = Some ''Org One'',
     msg_data = None\<rparr>"

text \<open>
  For the statements below: the channel list of the configuration that
  \<^verbatim>\<open>sendDeviceStatusNotification\<close> selects for a device and a status, empty when the
  device is unknown or no enabled configuration of the type exists.
\<close>

definition matchingChannels ::
  "string \<Rightarrow> DeviceConnectionStatus \<Rightarrow> (string \<times> Device) list \<Rightarrow> NotificationState \<Rightarrow>
   NotificationChannel list" where
  "matchingChannels d st store ns =
     (case map_of store d of
        None \<Rightarrow> []
      | Some device \<Rightarrow>
          (case find (\<lambda>config. cfg_type config = notificationTypeOf st \<and> cfg_enabled config)
                  (getNotificationConfigs ns (organizationKey device)) of
             None \<Rightarrow> []
           | Some config \<Rightarrow> cfg_channels config))"

section \<open>Facts about \<^verbatim>\<open>setDeviceStatus\<close>\<close>

lemmas service_defs = setDeviceStatus_def getDeviceById_def getDeviceConnection_def Let_def
  applyHeartbeatRules_def setupHeartbeat_def clearHeartbeat_def logConnectionStatus_def
  updateDeviceStatus_def emitStatusChange_def

lemmas example_defs = exampleState_def initialState_def exampleDevice_def envAt_def

text \<open>What a call for a device of the durable store returns and leaves behind.\<close>

lemma setDeviceStatus_found:
  assumes "getDeviceById s d = Some dev"
  shows "fst (setDeviceStatus d st pr ci e s) =
           Inr (applyStatusRules st (getDeviceConnection s d) e
                  (initialConnectionData d dev st pr (env_now e) (partialOf ci)))"
    and "deviceConnections (snd (setDeviceStatus d st pr ci e s)) =
           AList.update d (applyStatusRules st (getDeviceConnection s d) e
                  (initialConnectionData d dev st pr (env_now e) (partialOf ci)))
             (deviceConnections s)"
    and "bus (snd (setDeviceStatus d st pr ci e s)) =
           bus (emitStatusChange d (applyStatusRules st (getDeviceConnection s d) e
                  (initialConnectionData d dev st pr (env_now e) (partialOf ci)))
                (getDeviceConnection s d) e s)"
    and "\<exists>dev'. getDeviceById (snd (setDeviceStatus d st pr ci e s)) d = Some dev' \<and>
           dev_identifier dev' = dev_identifier dev"
  using assms by (simp_all add: service_defs update_conv')

lemma status_applyStatusRules: "status (applyStatusRules st existing e c) = status c"
  by (simp add: applyStatusRules_def split: option.splits)

section \<open>The states of the scenario\<close>

lemmas record_defs = applyStatusRules_def initialConnectionData_def partialOf_def
  emptyPartial_def supplied_def statusUnchanged_def

lemma connectedState_record: "getDeviceConnection connectedState ''dev-1'' = Some connectedRecord"
  by (simp add: connectedState_def connectedRecord_def tcpInfo_def service_defs example_defs
        record_defs)

lemma connectedState_device:
  "getDeviceById connectedState ''dev-1'' =
     Some (exampleDevice\<lparr>dev_status := Some ONLINE, dev_lastOnlineAt := Some 1000\<rparr>)"
  by (simp add: connectedState_def tcpInfo_def service_defs example_defs record_defs)

lemma onlineState_device:
  "getDeviceById onlineState ''dev-1'' =
     Some (exampleDevice\<lparr>dev_status := Some ONLINE, dev_lastOnlineAt := Some 0\<rparr>)"
  by (simp add: onlineState_def service_defs example_defs record_defs)

lemma onlineState_record: "getDeviceConnection onlineState ''dev-1'' = Some onlineRecord"
  by (simp add: onlineState_def onlineRecord_def service_defs example_defs record_defs)

lemma errorState_connections: "deviceConnections errorState = [(''dev-1'', errorRecord)]"
  by (simp add: errorState_def errorRecord_def service_defs example_defs record_defs)

lemma activeAgainState_connections:
  "deviceConnections activeAgainState =
     [(''dev-1'', errorRecord\<lparr>lastActivityAt := 82800000, metadata := Some lastMessage\<rparr>)]"
  by (simp add: activeAgainState_def updateDeviceActivity_def errorState_connections
        errorRecord_def lastMessage_def spread_def bagOf_def)

section \<open>Status-change events\<close>

text \<open>
  Claim C3. A call of \<^verbatim>\<open>setDeviceStatus\<close> for a device of the durable store returns a
  record \<open>c\<close> (whose status is the \<open>status\<close> argument unless the partial record supplies
  one) and adds to the bus either nothing or the general \<open>status_change\<close> event followed
  by the event of the new status. It adds the two events exactly when the device had no
  record before the call or the prior record's status differs from the status of \<open>c\<close>;
  a call that leaves the status as it was publishes nothing.
\<close>

theorem status_events_iff_status_changed:
  assumes "getDeviceById s d = Some dev"
  shows "\<exists>c. fst (setDeviceStatus d st pr ci e s) = Inr c \<and>
           (p_status (partialOf ci) = None \<longrightarrow> status c = st) \<and>
           bus (snd (setDeviceStatus d st pr ci e s)) =
             bus s @ newEvents s (snd (setDeviceStatus d st pr ci e s)) \<and>
           newEvents s (snd (setDeviceStatus d st pr ci e s)) =
             (if (case getDeviceConnection s d of
                    None \<Rightarrow> True
                  | Some old \<Rightarrow> status old \<noteq> status c)
              then [status_change d c (getDeviceConnection s d),
                    (case status c of
                       ONLINE \<Rightarrow> device_online d c
                     | OFFLINE \<Rightarrow> device_offline d c
                     | INACTIVE \<Rightarrow> device_inactive d c
                     | ERROR \<Rightarrow> device_error d c)]
              else [])"
  using assms
  by (simp add: setDeviceStatus_found newEvents_def emitStatusChange_def statusUnchanged_def
        statusEvent_def status_applyStatusRules initialConnectionData_def supplied_def
      split: option.splits)

theorem status_events_iff_status_changed_witness:
  "getDeviceById exampleState ''dev-1'' = Some exampleDevice \<and>
   getDeviceConnection exampleState ''dev-1'' = None \<and>
   p_status (partialOf None) = None \<and>
   (\<exists>c. fst (setDeviceStatus ''dev-1'' ONLINE MQTT None (envAt 1000) exampleState) = Inr c \<and>
        status c = ONLINE \<and>
        newEvents exampleState
          (snd (setDeviceStatus ''dev-1'' ONLINE MQTT None (envAt 1000) exampleState)) =
          [status_change ''dev-1'' c None, device_online ''dev-1'' c]) \<and>
   getDeviceById onlineState ''dev-1'' =
     Some (exampleDevice\<lparr>dev_status := Some ONLINE, dev_lastOnlineAt := Some 0\<rparr>) \<and>
   getDeviceConnection onlineState ''dev-1'' = Some onlineRecord \<and>
   status onlineRecord = ONLINE \<and>
   newEvents onlineState
     (snd (setDeviceStatus ''dev-1'' ONLINE MQTT None (envAt 60000) onlineState)) = []"
proof -
  have found: "getDeviceById exampleState ''dev-1'' = Some exampleDevice"
    by (simp add: getDeviceById_def example_defs)
  have none: "getDeviceConnection exampleState ''dev-1'' = None"
    by (simp add: getDeviceConnection_def example_defs)
  have part: "p_status (partialOf None) = None"
    by (simp add: partialOf_def emptyPartial_def)
  have online: "status onlineRecord = ONLINE"
    by (simp add: onlineRecord_def)
  from status_events_iff_status_changed [OF found, of ONLINE MQTT None "envAt 1000"]
  have fresh: "\<exists>c. fst (setDeviceStatus ''dev-1'' ONLINE MQTT None (envAt 1000) exampleState) = Inr c \<and>
        status c = ONLINE \<and>
        newEvents exampleState
          (snd (setDeviceStatus ''dev-1'' ONLINE MQTT None (envAt 1000) exampleState)) =
          [status_change ''dev-1'' c None, device_online ''dev-1'' c]"
    using none part by auto
  from status_events_iff_status_changed [OF onlineState_device, of ONLINE MQTT None "envAt 60000"]
  have again: "newEvents onlineState
      (snd (setDeviceStatus ''dev-1'' ONLINE MQTT None (envAt 60000) onlineState)) = []"
    using onlineState_record part online by auto
  show ?thesis
    using found none part fresh onlineState_device onlineState_record online again by blast
qed

section \<open>Repeated ONLINE signals\<close>

text \<open>
  Claim C5. For a device of the durable store, two calls of \<^verbatim>\<open>setDeviceStatus\<close> with
  status ONLINE, the same protocol and no partial record, one immediately after the
  other: the second call returns the record of the first with \<open>lastActivityAt\<close> set to
  the clock of the second call and every other field, \<open>sessionId\<close> and \<open>connectedAt\<close>
  among them, as the first call left it. The record of the first call carries the first
  call's clock as \<open>lastActivityAt\<close>, so the field advances as the clock does.
\<close>

theorem repeated_online_keeps_session:
  assumes "getDeviceById s d = Some dev"
  shows "\<exists>c1. fst (setDeviceStatus d ONLINE pr None e1 s) = Inr c1 \<and>
           fst (setDeviceStatus d ONLINE pr None e2 (snd (setDeviceStatus d ONLINE pr None e1 s))) =
             Inr (c1\<lparr>lastActivityAt := env_now e2\<rparr>) \<and>
           getDeviceConnection
             (snd (setDeviceStatus d ONLINE pr None e2 (snd (setDeviceStatus d ONLINE pr None e1 s)))) d =
             Some (c1\<lparr>lastActivityAt := env_now e2\<rparr>) \<and>
           lastActivityAt c1 = env_now e1"
proof -
  let ?c1 = "applyStatusRules ONLINE (getDeviceConnection s d) e1
               (initialConnectionData d dev ONLINE pr (env_now e1) (partialOf None))"
  let ?s1 = "snd (setDeviceStatus d ONLINE pr None e1 s)"
  obtain dev' where d': "getDeviceById ?s1 d = Some dev'" "dev_identifier dev' = dev_identifier dev"
    using setDeviceStatus_found(4) [OF assms] by blast
  let ?c2 = "applyStatusRules ONLINE (getDeviceConnection ?s1 d) e2
               (initialConnectionData d dev' ONLINE pr (env_now e2) (partialOf None))"
  have first: "fst (setDeviceStatus d ONLINE pr None e1 s) = Inr ?c1"
    by (rule setDeviceStatus_found(1) [OF assms])
  have conn: "getDeviceConnection ?s1 d = Some ?c1"
    by (simp add: getDeviceConnection_def setDeviceStatus_found(2) [OF assms] update_conv')
  have online: "status ?c1 = ONLINE"
    by (simp add: status_applyStatusRules initialConnectionData_def partialOf_def
          emptyPartial_def supplied_def)
  have c2: "?c2 = ?c1\<lparr>lastActivityAt := env_now e2\<rparr>"
    unfolding conn using online d'(2)
    by (simp add: applyStatusRules_def initialConnectionData_def partialOf_def emptyPartial_def
          supplied_def split: option.splits)
  have second: "fst (setDeviceStatus d ONLINE pr None e2 ?s1) = Inr ?c2"
    by (rule setDeviceStatus_found(1) [OF d'(1)])
  have stored: "getDeviceConnection (snd (setDeviceStatus d ONLINE pr None e2 ?s1)) d = Some ?c2"
    by (simp add: getDeviceConnection_def setDeviceStatus_found(2) [OF d'(1)] update_conv')
  have activity: "lastActivityAt ?c1 = env_now e1"
    by (simp add: applyStatusRules_def initialConnectionData_def partialOf_def emptyPartial_def
          supplied_def split: option.splits)
  show ?thesis
    using first second stored activity unfolding c2 by blast
qed

theorem repeated_online_keeps_session_witness:
  "getDeviceById exampleState ''dev-1'' = Some exampleDevice \<and>
   (\<exists>c1. fst (setDeviceStatus ''dev-1'' ONLINE MQTT None (envAt 1000) exampleState) = Inr c1 \<and>
      fst (setDeviceStatus ''dev-1'' ONLINE MQTT None (envAt 2000)
             (snd (setDeviceStatus ''dev-1'' ONLINE MQTT None (envAt 1000) exampleState))) =
        Inr (c1\<lparr>lastActivityAt := 2000\<rparr>) \<and>
      lastActivityAt c1 = 1000)"
proof -
  have found: "getDeviceById exampleState ''dev-1'' = Some exampleDevice"
    by (simp add: getDeviceById_def example_defs)
  from repeated_online_keeps_session [OF found, of MQTT "envAt 1000" "envAt 2000"]
  show ?thesis
    using found by (auto simp: envAt_def)
qed

section \<open>Unknown devices\<close>

text \<open>
  Claim C6. For a device id that the durable store does not hold, \<^verbatim>\<open>setDeviceStatus\<close>
  throws the error "Device with ID ... not found" and the state after the call is the
  state before it: the record table, the heartbeat timers, the connection log, the
  audit log, the bus and the broadcasts are all unchanged.
\<close>

theorem setDeviceStatus_unknown_device:
  assumes "getDeviceById s d = None"
  shows "setDeviceStatus d st pr ci e s = (Inl (DeviceNotFound d), s)"
  using assms by (simp add: setDeviceStatus_def)

theorem setDeviceStatus_unknown_device_witness:
  "getDeviceById exampleState ''ghost'' = None \<and>
   setDeviceStatus ''ghost'' ONLINE TCP None (envAt 1000) exampleState =
     (Inl (DeviceNotFound ''ghost''), exampleState)"
proof -
  have missing: "getDeviceById exampleState ''ghost'' = None"
    by (simp add: getDeviceById_def example_defs)
  from setDeviceStatus_unknown_device [OF missing, of ONLINE TCP None "envAt 1000"]
  show ?thesis
    using missing by simp
qed

section \<open>The existing record is not merged\<close>




section \<open>Activity signals\<close>

lemma map_of_spread:
  "distinct (map fst b) \<Longrightarrow> map_of (spread a b) = map_of a ++ map_of b"
  unfolding spread_def
proof (induction b arbitrary: a)
  case Nil
  show ?case by simp
next
  case (Cons x b)
  obtain k v where x: "x = (k, v)" by (cases x)
  from Cons.prems x have nk: "map_of b k = None" and db: "distinct (map fst b)"
    by (auto simp: map_of_eq_None_iff)
  have "map_of (fold (\<lambda>(k, v). AList.update k v) b (AList.update k v a)) =
          map_of (AList.update k v a) ++ map_of b"
    by (rule Cons.IH [OF db])
  also have "\<dots> = (map_of a)(k \<mapsto> v) ++ map_of b"
    by (simp only: update_conv')
  also have "\<dots> = map_of a ++ map_of ((k, v) # b)"
    using nk by (auto simp: fun_eq_iff map_add_def split: option.splits)
  finally have main: "map_of (fold (\<lambda>(k, v). AList.update k v) b (AList.update k v a)) =
      map_of a ++ map_of ((k, v) # b)" .
  have step: "fold (\<lambda>(k, v). AList.update k v) ((k, v) # b) a =
      fold (\<lambda>(k, v). AList.update k v) b (AList.update k v a)"
    by simp
  show ?case unfolding x step by (rule main)
qed

text \<open>
  Claim C9. \<^verbatim>\<open>updateDeviceActivity\<close> on a device without a record returns the state
  unchanged: it creates no record and raises nothing. On a device with the record \<open>c\<close>
  it changes nothing of the state but that record, which becomes \<open>c'\<close>: \<open>c\<close> with
  \<open>lastActivityAt\<close> set to the clock and with the metadata patch merged in, so status,
  protocol, \<open>sessionId\<close>, \<open>connectedAt\<close> and \<open>disconnectedAt\<close> are those of \<open>c\<close>. Without a
  patch the metadata stay as they are; with a patch (an object, so its keys are
  pairwise different) a key reads what the patch gives it and otherwise what the record
  had.
\<close>

theorem updateDeviceActivity_effect:
  "(getDeviceConnection s d = None \<longrightarrow> updateDeviceActivity d md t s = s) \<and>
   (\<forall>c. getDeviceConnection s d = Some c \<longrightarrow>
      (\<exists>c'. getDeviceConnection (updateDeviceActivity d md t s) d = Some c' \<and>
            updateDeviceActivity d md t s =
              s\<lparr>deviceConnections := AList.update d c' (deviceConnections s)\<rparr> \<and>
            c' = c\<lparr>lastActivityAt := t, metadata := metadata c'\<rparr> \<and>
            lastActivityAt c' = t \<and> status c' = status c \<and> protocol c' = protocol c \<and>
            sessionId c' = sessionId c \<and> connectedAt c' = connectedAt c \<and>
            disconnectedAt c' = disconnectedAt c \<and>
            (md = None \<longrightarrow> metadata c' = metadata c) \<and>
            (\<forall>m. md = Some m \<and> distinct (map fst m) \<longrightarrow>
               map_of (bagOf (metadata c')) = map_of (bagOf (metadata c)) ++ map_of m)))"
  by (cases md)
     (auto simp: updateDeviceActivity_def getDeviceConnection_def Let_def update_conv'
        map_of_spread bagOf_def)

theorem updateDeviceActivity_effect_witness:
  "getDeviceConnection exampleState ''dev-1'' = None \<and>
   updateDeviceActivity ''dev-1'' (Some [(''lastHeartbeat'', MDate 5000)]) 5000 exampleState =
     exampleState \<and>
   getDeviceConnection connectedState ''dev-1'' = Some connectedRecord \<and>
   distinct (map fst [(''lastHeartbeat'', MDate 5000)]) \<and>
   (\<exists>c'. getDeviceConnection
           (updateDeviceActivity ''dev-1'' (Some [(''lastHeartbeat'', MDate 5000)]) 5000
              connectedState) ''dev-1'' = Some c' \<and>
         lastActivityAt c' = 5000 \<and> status c' = ONLINE \<and> protocol c' = TCP \<and>
         sessionId c' = sessionId connectedRecord \<and> connectedAt c' = Some 1000 \<and>
         disconnectedAt c' = None \<and>
         map_of (bagOf (metadata c')) ''lastHeartbeat'' = Some (MDate 5000)) \<and>
   (\<exists>c'. getDeviceConnection (updateDeviceActivity ''dev-1'' None 5000 connectedState) ''dev-1'' =
           Some c' \<and>
         lastActivityAt c' = 5000 \<and> metadata c' = metadata connectedRecord)"
proof -
  have none: "getDeviceConnection exampleState ''dev-1'' = None"
    by (simp add: getDeviceConnection_def example_defs)
  have fields: "status connectedRecord = ONLINE" "protocol connectedRecord = TCP"
    "connectedAt connectedRecord = Some 1000" "disconnectedAt connectedRecord = None"
    by (simp_all add: connectedRecord_def)
  have keys: "distinct (map fst [(''lastHeartbeat'', MDate 5000)])"
    by simp
  from updateDeviceActivity_effect
         [of exampleState "''dev-1''" "Some [(''lastHeartbeat'', MDate 5000)]" 5000]
  have first: "updateDeviceActivity ''dev-1'' (Some [(''lastHeartbeat'', MDate 5000)]) 5000
      exampleState = exampleState"
    using none by blast
  from updateDeviceActivity_effect
         [of connectedState "''dev-1''" "Some [(''lastHeartbeat'', MDate 5000)]" 5000]
  obtain c' where second:
    "getDeviceConnection (updateDeviceActivity ''dev-1'' (Some [(''lastHeartbeat'', MDate 5000)])
        5000 connectedState) ''dev-1'' = Some c'"
    "lastActivityAt c' = 5000" "status c' = ONLINE" "protocol c' = TCP"
    "sessionId c' = sessionId connectedRecord" "connectedAt c' = Some 1000"
    "disconnectedAt c' = None"
    "map_of (bagOf (metadata c')) =
       map_of (bagOf (metadata connectedRecord)) ++ map_of [(''lastHeartbeat'', MDate 5000)]"
    using connectedState_record fields keys by auto
  from updateDeviceActivity_effect [of connectedState "''dev-1''" None 5000]
  obtain c'' where third:
    "getDeviceConnection (updateDeviceActivity ''dev-1'' None 5000 connectedState) ''dev-1'' =
       Some c''"
    "lastActivityAt c'' = 5000" "metadata c'' = metadata connectedRecord"
    using connectedState_record by auto
  have merged: "map_of (bagOf (metadata c')) ''lastHeartbeat'' = Some (MDate 5000)"
    unfolding second(8) by simp
  show ?thesis
    using none first connectedState_record keys second(1-7) merged third by blast
qed

section \<open>Connection statistics\<close>

lemma fold_online_count:
  "fold (\<lambda>(d, connection) count. if status connection = ONLINE then count + 1 else count) xs
     (n::nat) =
   n + length (filter (\<lambda>(d, c). status c = ONLINE) xs)"
  by (induction xs arbitrary: n) auto

lemma fold_protocol_stats:
  "fold (\<lambda>(d, connection) stats.
           if status connection = ONLINE
           then stats(protocol connection := stats (protocol connection) + 1)
           else stats) xs f p =
   f p + length (filter (\<lambda>(d, c). status c = ONLINE \<and> protocol c = p) xs)"
proof (induction xs arbitrary: f)
  case Nil
  show ?case by simp
next
  case (Cons x xs)
  obtain d c where x: "x = (d, c)" by (cases x)
  show ?case by (simp add: x Cons.IH)
qed

lemma sum_over_protocols:
  "(\<Sum>p\<leftarrow>allProtocols. length (filter (\<lambda>(d, c). status c = ONLINE \<and> protocol c = p) xs)) =
   length (filter (\<lambda>(d, c). status c = ONLINE) xs)"
proof (induction xs)
  case Nil
  show ?case by (simp add: allProtocols_def)
next
  case (Cons x xs)
  obtain d c where x: "x = (d, c)" by (cases x)
  show ?case using Cons x by (cases "protocol c") (auto simp: allProtocols_def)
qed

text \<open>
  Claim C10. In every state of the registry, the counter of a protocol is the number of
  records that are ONLINE under that protocol; dropping every record that is OFFLINE,
  INACTIVE or ERROR from the registry changes no counter; and the counters of the seven
  protocols add up to \<^verbatim>\<open>getOnlineDeviceCount\<close>.
\<close>

theorem stats_count_online_records:
  "getDeviceConnectionStatsByProtocol s p =
     length (filter (\<lambda>(d, c). status c = ONLINE \<and> protocol c = p) (deviceConnections s)) \<and>
   getDeviceConnectionStatsByProtocol
     (s\<lparr>deviceConnections := filter (\<lambda>(d, c). status c = ONLINE) (deviceConnections s)\<rparr>) p =
     getDeviceConnectionStatsByProtocol s p \<and>
   (\<Sum>q\<leftarrow>allProtocols. getDeviceConnectionStatsByProtocol s q) = getOnlineDeviceCount s"
proof -
  have stats: "\<And>s q. getDeviceConnectionStatsByProtocol s q =
      length (filter (\<lambda>(d, c). status c = ONLINE \<and> protocol c = q) (deviceConnections s))"
    by (simp add: getDeviceConnectionStatsByProtocol_def fold_protocol_stats)
  have online: "getOnlineDeviceCount s =
      length (filter (\<lambda>(d, c). status c = ONLINE) (deviceConnections s))"
    by (simp add: getOnlineDeviceCount_def fold_online_count)
  have twice: "filter (\<lambda>x. (case x of (d, c) \<Rightarrow> status c = ONLINE) \<and>
                      (case x of (d, c) \<Rightarrow> status c = ONLINE \<and> protocol c = p))
                 (deviceConnections s) =
               filter (\<lambda>(d, c). status c = ONLINE \<and> protocol c = p) (deviceConnections s)"
    by (rule filter_cong) auto
  show ?thesis
    by (simp add: stats online twice sum_over_protocols)
qed

section \<open>The stale-connection sweep\<close>

lemma cleanupConnection_connections:
  "deviceConnections (cleanupConnection t d s) = AList.delete d (deviceConnections s)"
  by (auto simp: cleanupConnection_def Let_def clearHeartbeat_def logConnectionStatus_def
        map_of_eq_None_iff
      split: option.splits)

lemma cleanup_fold_connections:
  "deviceConnections (fold (cleanupConnection t) ds s) =
     filter (\<lambda>(d, c). d \<notin> set ds) (deviceConnections s)"
proof (induction ds arbitrary: s)
  case Nil
  show ?case by simp
next
  case (Cons d ds)
  show ?case
    by (simp add: Cons.IH cleanupConnection_connections AList.delete_eq case_prod_unfold)
       (rule filter_cong, auto)
qed

lemma cleanup_fold_frame:
  "bus (fold (cleanupConnection t) ds s) = bus s \<and>
   broadcasts (fold (cleanupConnection t) ds s) = broadcasts s \<and>
   devices (fold (cleanupConnection t) ds s) = devices s"
proof (induction ds arbitrary: s)
  case Nil
  show ?case by simp
next
  case (Cons d ds)
  have "bus (cleanupConnection t d s) = bus s \<and>
        broadcasts (cleanupConnection t d s) = broadcasts s \<and>
        devices (cleanupConnection t d s) = devices s"
    by (simp add: cleanupConnection_def Let_def clearHeartbeat_def logConnectionStatus_def
          split: option.splits)
  then show ?case by (simp add: Cons.IH)
qed

lemma cleanupConnection_log:
  "connectionLog (cleanupConnection t d s) =
     connectionLog s @
       (case map_of (deviceConnections s) d of
          None \<Rightarrow> []
        | Some c \<Rightarrow> [connectionLogRow d OFFLINE (protocol c) (cleanupRecord t c)])"
  by (simp add: cleanupConnection_def Let_def clearHeartbeat_def logConnectionStatus_def
        split: option.splits)

lemma cleanup_fold_log:
  "distinct ds \<Longrightarrow>
   connectionLog (fold (cleanupConnection t) ds s) =
     connectionLog s @
       concat (map (\<lambda>d. case map_of (deviceConnections s) d of
                           None \<Rightarrow> []
                         | Some c \<Rightarrow> [connectionLogRow d OFFLINE (protocol c) (cleanupRecord t c)])
                 ds)"
proof (induction ds arbitrary: s)
  case Nil
  show ?case by simp
next
  case (Cons d ds)
  from Cons.prems have nd: "d \<notin> set ds" and dd: "distinct ds" by auto
  have same: "map (\<lambda>x. case map_of (deviceConnections (cleanupConnection t d s)) x of
                          None \<Rightarrow> []
                        | Some c \<Rightarrow> [connectionLogRow x OFFLINE (protocol c) (cleanupRecord t c)]) ds =
              map (\<lambda>x. case map_of (deviceConnections s) x of
                          None \<Rightarrow> []
                        | Some c \<Rightarrow> [connectionLogRow x OFFLINE (protocol c) (cleanupRecord t c)]) ds"
  proof (rule map_cong [OF refl])
    fix x
    assume "x \<in> set ds"
    with nd have "x \<noteq> d" by auto
    then show "(case map_of (deviceConnections (cleanupConnection t d s)) x of
                  None \<Rightarrow> []
                | Some c \<Rightarrow> [connectionLogRow x OFFLINE (protocol c) (cleanupRecord t c)]) =
               (case map_of (deviceConnections s) x of
                  None \<Rightarrow> []
                | Some c \<Rightarrow> [connectionLogRow x OFFLINE (protocol c) (cleanupRecord t c)])"
      by (simp add: cleanupConnection_connections)
  qed
  show ?case
    by (simp add: Cons.IH [OF dd] cleanupConnection_log same)
qed

lemma rows_of_entries:
  assumes "distinct (map fst xs)" and "set ys \<subseteq> set xs"
  shows "concat (map (\<lambda>d. case map_of xs d of None \<Rightarrow> [] | Some c \<Rightarrow> [f d c]) (map fst ys)) =
         map (\<lambda>(d, c). f d c) ys"
  using assms(2)
proof (induction ys)
  case Nil
  show ?case by simp
next
  case (Cons y ys)
  obtain d c where y: "y = (d, c)" by (cases y)
  with Cons.prems have "(d, c) \<in> set xs" by auto
  with assms(1) have "map_of xs d = Some c" by simp
  with Cons y show ?case by simp
qed

lemma selected_keys:
  assumes "distinct (map fst xs)" and "(d, c) \<in> set xs"
  shows "d \<in> set (map fst (filter (\<lambda>(d, c). P c) xs)) \<longleftrightarrow> P c"
proof
  assume "d \<in> set (map fst (filter (\<lambda>(d, c). P c) xs))"
  then obtain c' where c': "(d, c') \<in> set xs" "P c'" by auto
  from assms c'(1) have "c' = c" by (meson eq_key_imp_eq_value)
  with c'(2) show "P c" by simp
next
  assume "P c"
  with assms(2) show "d \<in> set (map fst (filter (\<lambda>(d, c). P c) xs))" by force
qed

lemma cleanupRecord_reason:
  "status (cleanupRecord t c) = OFFLINE \<and> disconnectedAt (cleanupRecord t c) = Some t \<and>
   map_of (bagOf (metadata (cleanupRecord t c))) ''cleanupReason'' =
     Some (MString ''Inactive for more than 24 hours'')"
  by (simp add: cleanupRecord_def bagOf_def map_of_spread)

text \<open>
  Claim C7, as stated, fails. The device has been in ERROR since time 0; a message at 23
  hours counts as activity and leaves it in ERROR; the sweep at 25 hours, when the
  record has been in ERROR for 25 hours, removes nothing and logs nothing, because it
  measures the time since \<open>lastActivityAt\<close>.
\<close>

theorem cleanup_keeps_record_in_error_over_a_day:
  "map_option status (getDeviceConnection errorState ''dev-1'') = Some ERROR \<and>
   map_option status (getDeviceConnection activeAgainState ''dev-1'') = Some ERROR \<and>
   90000000 - 0 > CLEANUP_THRESHOLD \<and>
   getAllDeviceConnections (cleanupInactiveConnections 90000000 activeAgainState) =
     getAllDeviceConnections activeAgainState \<and>
   map_option status
     (getDeviceConnection (cleanupInactiveConnections 90000000 activeAgainState) ''dev-1'') =
     Some ERROR \<and>
   connectionLog (cleanupInactiveConnections 90000000 activeAgainState) =
     connectionLog activeAgainState"
  by (simp add: getDeviceConnection_def getAllDeviceConnections_def errorState_connections
        activeAgainState_connections cleanupInactiveConnections_def devicesToCleanup_def
        staleConnection_def CLEANUP_THRESHOLD_def errorRecord_def)

text \<open>
  Claim C7, amended. A record is stale at a sweep when its status is INACTIVE or ERROR
  and its \<open>lastActivityAt\<close> lies more than 24 hours before the clock the sweep reads. In
  a registry with one record per device, the sweep leaves exactly the records that are
  not stale, each as it was and in the same order, and it appends to the connection log
  one row for each stale record, in the order of the registry. The row is written from
  the record as the registry still holds it: it has the status OFFLINE, the sweep's
  clock as \<open>disconnectedAt\<close> and the record's metadata with \<open>cleanupReason\<close> added.
\<close>

theorem cleanup_by_last_activity:
  assumes "distinct (map fst (deviceConnections s))"
  shows "getAllDeviceConnections (cleanupInactiveConnections t s) =
           filter (\<lambda>(d, c). \<not> staleConnection t c) (getAllDeviceConnections s) \<and>
         connectionLog (cleanupInactiveConnections t s) =
           connectionLog s @
             map (\<lambda>(d, c). connectionLogRow d OFFLINE (protocol c) (cleanupRecord t c))
               (filter (\<lambda>(d, c). staleConnection t c) (getAllDeviceConnections s)) \<and>
         (\<forall>d c. log_status (connectionLogRow d OFFLINE (protocol c) (cleanupRecord t c)) = OFFLINE \<and>
                log_disconnectedAt (connectionLogRow d OFFLINE (protocol c) (cleanupRecord t c)) =
                  Some t \<and>
                log_sessionId (connectionLogRow d OFFLINE (protocol c) (cleanupRecord t c)) =
                  sessionId c \<and>
                map_of (bagOf (log_metadata
                  (connectionLogRow d OFFLINE (protocol c) (cleanupRecord t c)))) ''cleanupReason'' =
                  Some (MString ''Inactive for more than 24 hours'')) \<and>
         (\<forall>c. staleConnection t c \<longleftrightarrow>
                (status c = INACTIVE \<or> status c = ERROR) \<and>
                t - lastActivityAt c > 24 * 60 * 60 * 1000)"
proof -
  let ?xs = "deviceConnections s"
  let ?ys = "filter (\<lambda>(d, c). staleConnection t c) ?xs"
  have dk: "distinct (devicesToCleanup t s)"
    unfolding devicesToCleanup_def using assms by (simp add: distinct_map_filter)
  have conns: "deviceConnections (cleanupInactiveConnections t s) =
      filter (\<lambda>(d, c). \<not> staleConnection t c) ?xs"
    unfolding cleanupInactiveConnections_def cleanup_fold_connections devicesToCleanup_def
    by (rule filter_cong [OF refl])
       (use selected_keys [OF assms, where P = "staleConnection t"] in auto)
  have log: "connectionLog (cleanupInactiveConnections t s) =
      connectionLog s @
        map (\<lambda>(d, c). connectionLogRow d OFFLINE (protocol c) (cleanupRecord t c)) ?ys"
    unfolding cleanupInactiveConnections_def cleanup_fold_log [OF dk]
    unfolding devicesToCleanup_def
    using rows_of_entries [OF assms, of ?ys] by simp
  have rows: "\<And>d c. log_status (connectionLogRow d OFFLINE (protocol c) (cleanupRecord t c)) = OFFLINE \<and>
      log_disconnectedAt (connectionLogRow d OFFLINE (protocol c) (cleanupRecord t c)) = Some t \<and>
      log_sessionId (connectionLogRow d OFFLINE (protocol c) (cleanupRecord t c)) = sessionId c \<and>
      map_of (bagOf (log_metadata
        (connectionLogRow d OFFLINE (protocol c) (cleanupRecord t c)))) ''cleanupReason'' =
        Some (MString ''Inactive for more than 24 hours'')"
    using cleanupRecord_reason by (simp add: connectionLogRow_def) (simp add: cleanupRecord_def)
  have stale: "\<And>c. staleConnection t c \<longleftrightarrow>
      (status c = INACTIVE \<or> status c = ERROR) \<and> t - lastActivityAt c > 24 * 60 * 60 * 1000"
    by (simp add: staleConnection_def CLEANUP_THRESHOLD_def)
  show ?thesis
    using conns log rows stale unfolding getAllDeviceConnections_def by blast
qed

theorem cleanup_by_last_activity_witness:
  "distinct (map fst (deviceConnections errorState)) \<and>
   getAllDeviceConnections errorState = [(''dev-1'', errorRecord)] \<and>
   staleConnection 86700000 errorRecord \<and>
   getAllDeviceConnections (cleanupInactiveConnections 86700000 errorState) = [] \<and>
   connectionLog (cleanupInactiveConnections 86700000 errorState) =
     connectionLog errorState @
       [connectionLogRow ''dev-1'' OFFLINE MQTT (cleanupRecord 86700000 errorRecord)]"
proof -
  have keys: "distinct (map fst (deviceConnections errorState))"
    by (simp add: errorState_connections)
  have stale: "staleConnection 86700000 errorRecord"
    by (simp add: staleConnection_def CLEANUP_THRESHOLD_def errorRecord_def)
  have proto: "protocol errorRecord = MQTT"
    by (simp add: errorRecord_def)
  from cleanup_by_last_activity [OF keys, of 86700000]
  show ?thesis
    using keys stale proto
    by (simp add: getAllDeviceConnections_def errorState_connections)
qed

section \<open>Events of the sweep and of the heartbeat\<close>

text \<open>
  Claim C8, as stated, fails: the first sweep after 24 hours finds the record of the
  device stale, evicts it, and publishes no event at all.
\<close>

theorem cleanup_publishes_no_event:
  "getDeviceConnection errorState ''dev-1'' = Some errorRecord \<and>
   staleConnection 86700000 errorRecord \<and>
   getDeviceConnection (cleanupInactiveConnections 86700000 errorState) ''dev-1'' = None \<and>
   newEvents errorState (cleanupInactiveConnections 86700000 errorState) = [] \<and>
   broadcasts (cleanupInactiveConnections 86700000 errorState) = broadcasts errorState"
  by (simp add: getDeviceConnection_def errorState_connections cleanupInactiveConnections_def
        devicesToCleanup_def staleConnection_def CLEANUP_THRESHOLD_def errorRecord_def
        cleanupConnection_def Let_def clearHeartbeat_def logConnectionStatus_def newEvents_def)

text \<open>
  Claim C8, amended. The sweep publishes nothing: it leaves the bus, the real-time
  broadcasts and the durable device table as they were. The heartbeat callback, when it
  finds the record \<open>c\<close> of a device of the durable store inactive for longer than the
  threshold, leaves the state that the call of \<^verbatim>\<open>setDeviceStatus\<close> with INACTIVE, the
  record's protocol and the partial record of the callback leaves, and so publishes what
  that call publishes: nothing when \<open>c\<close> is INACTIVE already, otherwise \<open>status_change\<close>
  followed by \<open>device_inactive\<close>, both carrying the new INACTIVE record.
\<close>

theorem cleanup_silent_heartbeat_through_setDeviceStatus:
  "bus (cleanupInactiveConnections t s) = bus s \<and>
   broadcasts (cleanupInactiveConnections t s) = broadcasts s \<and>
   devices (cleanupInactiveConnections t s) = devices s \<and>
   (\<forall>c dev. getDeviceConnection s d = Some c \<and> getDeviceById s d = Some dev \<and>
        t - lastActivityAt c > INACTIVE_THRESHOLD \<longrightarrow>
      snd (heartbeatTick d t e s) =
        snd (setDeviceStatus d INACTIVE (protocol c)
               (Some (emptyPartial\<lparr>p_lastActivityAt := Some (lastActivityAt c),
                  p_metadata := Some (spread (bagOf (metadata c))
                    [(''inactiveReason'', MString ''Heartbeat timeout'')])\<rparr>)) e s) \<and>
      (\<exists>c'. getDeviceConnection (snd (heartbeatTick d t e s)) d = Some c' \<and>
            status c' = INACTIVE \<and>
            newEvents s (snd (heartbeatTick d t e s)) =
              (if status c = INACTIVE then []
               else [status_change d c' (Some c), device_inactive d c'])))"
proof -
  have sweep: "bus (cleanupInactiveConnections t s) = bus s \<and>
      broadcasts (cleanupInactiveConnections t s) = broadcasts s \<and>
      devices (cleanupInactiveConnections t s) = devices s"
    unfolding cleanupInactiveConnections_def by (rule cleanup_fold_frame)
  have beat: "snd (heartbeatTick d t e s) =
        snd (setDeviceStatus d INACTIVE (protocol c)
               (Some (emptyPartial\<lparr>p_lastActivityAt := Some (lastActivityAt c),
                  p_metadata := Some (spread (bagOf (metadata c))
                    [(''inactiveReason'', MString ''Heartbeat timeout'')])\<rparr>)) e s) \<and>
      (\<exists>c'. getDeviceConnection (snd (heartbeatTick d t e s)) d = Some c' \<and>
            status c' = INACTIVE \<and>
            newEvents s (snd (heartbeatTick d t e s)) =
              (if status c = INACTIVE then []
               else [status_change d c' (Some c), device_inactive d c']))"
    if c: "getDeviceConnection s d = Some c" and dev: "getDeviceById s d = Some dev"
      and late: "t - lastActivityAt c > INACTIVE_THRESHOLD" for c dev
  proof -
    let ?p = "Some (emptyPartial\<lparr>p_lastActivityAt := Some (lastActivityAt c),
                  p_metadata := Some (spread (bagOf (metadata c))
                    [(''inactiveReason'', MString ''Heartbeat timeout'')])\<rparr>)"
    let ?c' = "applyStatusRules INACTIVE (getDeviceConnection s d) e
                 (initialConnectionData d dev INACTIVE (protocol c) (env_now e) (partialOf ?p))"
    have same: "snd (heartbeatTick d t e s) = snd (setDeviceStatus d INACTIVE (protocol c) ?p e s)"
      using c late
      by (simp add: heartbeatTick_def getDeviceConnection_def Let_def split: prod.splits sum.splits)
    have st: "status ?c' = INACTIVE"
      by (simp add: status_applyStatusRules initialConnectionData_def partialOf_def
            emptyPartial_def supplied_def)
    have stored: "getDeviceConnection (snd (setDeviceStatus d INACTIVE (protocol c) ?p e s)) d =
        Some ?c'"
      by (simp add: getDeviceConnection_def setDeviceStatus_found(2) [OF dev] update_conv')
    have events: "newEvents s (snd (setDeviceStatus d INACTIVE (protocol c) ?p e s)) =
        (if status c = INACTIVE then [] else [status_change d ?c' (Some c), device_inactive d ?c'])"
      using st
      by (simp add: newEvents_def setDeviceStatus_found(3) [OF dev] emitStatusChange_def
            statusUnchanged_def statusEvent_def c)
    show ?thesis
      unfolding same using stored st events by blast
  qed
  show ?thesis
    using sweep beat by blast
qed

theorem cleanup_silent_heartbeat_through_setDeviceStatus_witness:
  "getDeviceById onlineState ''dev-1'' =
     Some (exampleDevice\<lparr>dev_status := Some ONLINE, dev_lastOnlineAt := Some 0\<rparr>) \<and>
   getDeviceConnection onlineState ''dev-1'' = Some onlineRecord \<and>
   360000 - lastActivityAt onlineRecord > INACTIVE_THRESHOLD \<and>
   (\<exists>c'. getDeviceConnection (snd (heartbeatTick ''dev-1'' 360000 (envAt 360000) onlineState))
          ''dev-1'' = Some c' \<and>
        status c' = INACTIVE \<and>
        newEvents onlineState (snd (heartbeatTick ''dev-1'' 360000 (envAt 360000) onlineState)) =
          [status_change ''dev-1'' c' (Some onlineRecord), device_inactive ''dev-1'' c'])"
proof -
  have late: "360000 - lastActivityAt onlineRecord > INACTIVE_THRESHOLD"
    by (simp add: INACTIVE_THRESHOLD_def onlineRecord_def)
  have online: "status onlineRecord \<noteq> INACTIVE"
    by (simp add: onlineRecord_def)
  from cleanup_silent_heartbeat_through_setDeviceStatus
         [of 360000 onlineState "''dev-1''" "envAt 360000"]
    onlineState_device onlineState_record late
  obtain c' where
    "getDeviceConnection (snd (heartbeatTick ''dev-1'' 360000 (envAt 360000) onlineState))
       ''dev-1'' = Some c'"
    "status c' = INACTIVE"
    "newEvents onlineState (snd (heartbeatTick ''dev-1'' 360000 (envAt 360000) onlineState)) =
       (if status onlineRecord = INACTIVE then []
        else [status_change ''dev-1'' c' (Some onlineRecord), device_inactive ''dev-1'' c'])"
    by blast
  then show ?thesis
    using onlineState_device onlineState_record late online by auto
qed

section \<open>Delivery of notifications\<close>

lemmas channel_defs = sendToChannel_def sendWebSocketNotification_def sendEmailNotification_def
  sendSmsNotification_def sendPushNotification_def sendWebhookNotification_def
  recordDelivery_def broadcastToRoom_def Let_def

lemma systemWide_sendToChannel:
  "systemWide m (sendToChannel m ch ns) =
     systemWide m ns +
     (if ch = CHANNEL_WEBSOCKET \<and> (msg_priority m = HIGH \<or> msg_priority m = CRITICAL)
      then 1 else 0)"
  by (cases ch) (auto simp: channel_defs systemWide_def split: option.splits)

lemma systemWide_fold:
  "systemWide m (fold (sendToChannel m) chs ns) =
     systemWide m ns +
     (if msg_priority m = HIGH \<or> msg_priority m = CRITICAL
      then count_list chs CHANNEL_WEBSOCKET else 0)"
  by (induction chs arbitrary: ns) (auto simp: systemWide_sendToChannel)

text \<open>
  Claim C2, as stated, fails: a CRITICAL message sent on the channels e-mail and SMS is
  handed to the e-mail channel and never reaches the system-wide room.
\<close>

theorem critical_message_misses_system_wide_room:
  "msg_priority criticalMessage = CRITICAL \<and>
   attempts EMAIL (sendNotification criticalMessage [EMAIL, SMS] initialNotificationState) = 1 \<and>
   systemWide criticalMessage
     (sendNotification criticalMessage [EMAIL, SMS] initialNotificationState) = 0 \<and>
   roomBroadcasts (sendNotification criticalMessage [EMAIL, SMS] initialNotificationState) = []"
  by (simp add: criticalMessage_def sendNotification_def sendToChannel_def
        sendEmailNotification_def sendSmsNotification_def recordDelivery_def systemWide_def
        attempts_def initialNotificationState_def loadDefaultConfigs_def Let_def)

text \<open>
  Claim C2, amended. The broadcast to the system-wide room is part of the WebSocket
  delivery: \<^verbatim>\<open>sendNotification\<close> delivers a message of priority HIGH or CRITICAL to the
  system-wide room once for each occurrence of the WebSocket channel among the channels
  it is given, so not at all when they omit it, and a message of priority LOW or MEDIUM
  never.
\<close>

theorem system_wide_delivery_with_websocket_only:
  "systemWide m (sendNotification m chs ns) =
     systemWide m ns +
     (if msg_priority m = HIGH \<or> msg_priority m = CRITICAL
      then count_list chs CHANNEL_WEBSOCKET else 0)"
proof -
  have "systemWide m (sendNotification m chs ns) = systemWide m (fold (sendToChannel m) chs ns)"
    by (simp add: sendNotification_def Let_def systemWide_def)
  then show ?thesis by (simp add: systemWide_fold)
qed

section \<open>Notifications of one transition\<close>

lemma attempts_sendToChannel:
  "attempts ch (sendToChannel m c ns) = attempts ch ns + (if c = ch then 1 else 0)"
  by (cases c) (auto simp: channel_defs attempts_def split: option.splits)

lemma attempts_fold:
  "attempts ch (fold (sendToChannel m) chs ns) = attempts ch ns + count_list chs ch"
  by (induction chs arbitrary: ns) (auto simp: attempts_sendToChannel)

lemma configs_sendToChannel:
  "notificationConfigs (sendToChannel m c ns) = notificationConfigs ns \<and>
   defaultConfigs (sendToChannel m c ns) = defaultConfigs ns"
  by (cases c) (auto simp: channel_defs split: option.splits)

lemma configs_fold:
  "notificationConfigs (fold (sendToChannel m) chs ns) = notificationConfigs ns \<and>
   defaultConfigs (fold (sendToChannel m) chs ns) = defaultConfigs ns"
  by (induction chs arbitrary: ns) (auto simp: configs_sendToChannel)

text \<open>One call of the handler attempts each channel of the selected configuration once.\<close>

lemma attempts_sendDeviceStatusNotification:
  "attempts ch (sendDeviceStatusNotification d st c e store ns) =
     attempts ch ns + count_list (matchingChannels d st store ns) ch"
  by (simp add: sendDeviceStatusNotification_def matchingChannels_def Let_def
        logNotification_def sendNotification_def attempts_def attempts_fold [unfolded attempts_def]
      split: option.splits)

lemma configs_sendDeviceStatusNotification:
  "notificationConfigs (sendDeviceStatusNotification d st c e store ns) = notificationConfigs ns \<and>
   defaultConfigs (sendDeviceStatusNotification d st c e store ns) = defaultConfigs ns"
  by (simp add: sendDeviceStatusNotification_def Let_def logNotification_def
        sendNotification_def configs_fold split: option.splits)

lemma matchingChannels_cong:
  "notificationConfigs ns' = notificationConfigs ns \<and> defaultConfigs ns' = defaultConfigs ns \<Longrightarrow>
   matchingChannels d st store ns' = matchingChannels d st store ns"
  by (simp add: matchingChannels_def getNotificationConfigs_def split: option.splits)

lemma onBusEvent_statusEvent:
  "onBusEvent (statusEvent d c) e store ns =
     sendDeviceStatusNotification d (status c) c e store ns"
  by (cases "status c") (simp_all add: statusEvent_def onBusEvent_def)

text \<open>
  The two events that \<^verbatim>\<open>emitStatusChange\<close> publishes for one transition each start the
  handler, so every channel of the selected configuration is attempted twice.
\<close>

lemma transition_attempts_twice:
  "attempts ch (handleEvents [status_change d c old, statusEvent d c] envs store ns) =
     attempts ch ns + 2 * count_list (matchingChannels d (status c) store ns) ch"
proof -
  let ?n1 = "sendDeviceStatusNotification d (status c) c (envs 0) store ns"
  have first: "onBusEvent (status_change d c old) (envs 0) store ns = ?n1"
    by (simp add: onBusEvent_def)
  have same: "matchingChannels d (status c) store ?n1 = matchingChannels d (status c) store ns"
    by (rule matchingChannels_cong [OF configs_sendDeviceStatusNotification])
  show ?thesis
    by (simp add: first onBusEvent_statusEvent attempts_sendDeviceStatusNotification same)
qed

text \<open>Without an enabled configuration of the type the handler does nothing.\<close>

lemma disabled_config_sends_nothing:
  assumes "map_of store d = Some device"
    and "\<forall>config \<in> set (getNotificationConfigs ns (organizationKey device)).
           cfg_type config = notificationTypeOf st \<longrightarrow> \<not> cfg_enabled config"
  shows "sendDeviceStatusNotification d st c e store ns = ns"
proof -
  have "find (\<lambda>config. cfg_type config = notificationTypeOf st \<and> cfg_enabled config)
          (getNotificationConfigs ns (organizationKey device)) = None"
    using assms(2) by (auto simp: find_None_iff)
  with assms(1) show ?thesis
    by (simp add: sendDeviceStatusNotification_def)
qed

lemma offlineState_events:
  "newEvents connectedState offlineState =
     [status_change ''dev-1'' offlineRecord (Some connectedRecord),
      device_offline ''dev-1'' offlineRecord]"
proof -
  have rec: "applyStatusRules OFFLINE (Some connectedRecord) (envAt 61000)
               (initialConnectionData ''dev-1''
                  (exampleDevice\<lparr>dev_status := Some ONLINE, dev_lastOnlineAt := Some 1000\<rparr>)
                  OFFLINE TCP (env_now (envAt 61000)) (partialOf None)) = offlineRecord"
    by (simp add: offlineRecord_def connectedRecord_def record_defs example_defs)
  show ?thesis
    unfolding offlineState_def newEvents_def setDeviceStatus_found(3) [OF connectedState_device]
      connectedState_record rec
    by (simp add: emitStatusChange_def statusUnchanged_def statusEvent_def offlineRecord_def
          connectedRecord_def)
qed

lemma offlineState_devices:
  "devices offlineState =
     [(''dev-1'', exampleDevice\<lparr>dev_status := Some OFFLINE, dev_lastOnlineAt := Some 1000\<rparr>)]"
  by (simp add: offlineState_def connectedState_def tcpInfo_def service_defs example_defs
        record_defs)

text \<open>
  Claim C1 at a concrete input. The organization of the device has the configuration
  for DEVICE_OFFLINE enabled with the channels e-mail and SMS. The one transition of the
  device from ONLINE to OFFLINE publishes two events, and after the listeners of the
  notification service have handled them the e-mail channel and the SMS channel have
  been attempted twice each, where the claim says once; the channels outside the
  configuration have not been attempted.
\<close>

theorem offline_transition_attempts_each_channel_twice:
  "newEvents connectedState offlineState =
     [status_change ''dev-1'' offlineRecord (Some connectedRecord),
      device_offline ''dev-1'' offlineRecord] \<and>
   matchingChannels ''dev-1'' OFFLINE (devices offlineState) configuredNotifier = [EMAIL, SMS] \<and>
   attempts EMAIL notifiedState = 2 \<and>
   attempts SMS notifiedState = 2 \<and>
   attempts CHANNEL_WEBSOCKET notifiedState = 0 \<and>
   attempts PUSH notifiedState = 0 \<and>
   attempts WEBHOOK notifiedState = 0"
proof -
  have ev: "newEvents connectedState offlineState =
      [status_change ''dev-1'' offlineRecord (Some connectedRecord),
       statusEvent ''dev-1'' offlineRecord]"
    by (simp add: offlineState_events statusEvent_def offlineRecord_def)
  have st: "status offlineRecord = OFFLINE"
    by (simp add: offlineRecord_def)
  have chans: "matchingChannels ''dev-1'' OFFLINE (devices offlineState) configuredNotifier =
      [EMAIL, SMS]"
    by (simp add: matchingChannels_def offlineState_devices exampleDevice_def
          organizationKey_def truthy_def configuredNotifier_def setNotificationConfigs_def
          getNotificationConfigs_def initialNotificationState_def loadDefaultConfigs_def
          offlineConfigs_def notificationTypeOf_def)
  have zero: "\<And>ch. attempts ch configuredNotifier = 0"
    by (simp add: attempts_def configuredNotifier_def setNotificationConfigs_def
          initialNotificationState_def loadDefaultConfigs_def)
  have counts: "attempts EMAIL notifiedState = 2 \<and> attempts SMS notifiedState = 2 \<and>
      attempts CHANNEL_WEBSOCKET notifiedState = 0 \<and> attempts PUSH notifiedState = 0 \<and>
      attempts WEBHOOK notifiedState = 0"
    unfolding notifiedState_def ev transition_attempts_twice st chans zero by simp
  show ?thesis
    using offlineState_events chans counts by simp
qed

end
